theory Spec2Isabelle
  imports Complex_Main "HOL-Library.Word"
begin

section \<open>Strings\<close>

text \<open>
  The strings of a request (roles, message texts, declared types, payloads) are modelled
  as \<^typ>\<open>string\<close>: the list of the code units, each below 256. The functions below are
  the \<^verbatim>\<open>String.prototype\<close> methods the route handler calls, on that representation.
  The text of the reply, which the relay encodes, has its own type below.
\<close>

definition startsWith :: "string \<Rightarrow> string \<Rightarrow> bool" where
  "startsWith s p = (take (length p) s = p)"

fun includes_str :: "string \<Rightarrow> string \<Rightarrow> bool" where
  "includes_str [] p = (p = [])"
| "includes_str (c # cs) p = (startsWith (c # cs) p \<or> includes_str cs p)"

text \<open>
  \<^verbatim>\<open>s.split(sep)\<close> for a non-empty separator: \<open>acc\<close> holds, reversed, the code units read
  since the last separator.
\<close>

function splitFrom :: "string \<Rightarrow> string \<Rightarrow> string \<Rightarrow> string list" where
  "splitFrom sep acc [] = [rev acc]"
| "splitFrom sep acc (c # cs) =
     (if sep \<noteq> [] \<and> startsWith (c # cs) sep
      then rev acc # splitFrom sep [] (drop (length sep - 1) cs)
      else splitFrom sep (c # acc) cs)"
  by pat_completeness auto
termination
  by (relation "measure (\<lambda>(sep, acc, s). length s)") auto

definition split :: "string \<Rightarrow> string \<Rightarrow> string list" where
  "split s sep = splitFrom sep [] s"

text \<open>
  \<^verbatim>\<open>base64.replace(/^data:[^;]+;base64,/, "")\<close>. The pattern is anchored at the start;
  \<^verbatim>\<open>[^;]+\<close> can only stop at the first \<^verbatim>\<open>;\<close>, so the match, when there is one, is
  \<^verbatim>\<open>data:\<close>, the non-empty run up to the first \<^verbatim>\<open>;\<close>, and \<^verbatim>\<open>;base64,\<close>.
\<close>

definition stripDataUrlHeader :: "string \<Rightarrow> string" where
  "stripDataUrlHeader base64 =
     (if startsWith base64 ''data:'' then
        (let rest = drop 5 base64;
             mediaType = takeWhile (\<lambda>c. c \<noteq> CHR '';'') rest;
             tail = dropWhile (\<lambda>c. c \<noteq> CHR '';'') rest
         in if mediaType \<noteq> [] \<and> startsWith tail '';base64,'' then drop 8 tail else base64)
      else base64)"

section \<open>MIME type resolution\<close>

text \<open>\<^verbatim>\<open>getMimeType(fileType, base64)\<close>, branch by branch.\<close>

definition getMimeType :: "string \<Rightarrow> string \<Rightarrow> string" where
  "getMimeType fileType base64 =
     (if startsWith fileType ''image/'' then
        (if fileType = ''image/png'' then ''image/png'' else ''image/jpeg'')
      else if fileType = ''application/pdf'' then ''application/pdf''
      else if startsWith fileType ''video/'' then fileType
      else if includes_str base64 ''data:image/png'' then ''image/png''
      else if includes_str base64 ''data:image/jpeg'' \<or> includes_str base64 ''data:image/jpg''
        then ''image/jpeg''
      else if includes_str base64 ''data:application/pdf'' then ''application/pdf''
      else ''image/jpeg'')"

section \<open>Attachment validation\<close>

text \<open>
  The texts the handler puts into an error. \<open>FileTooLarge mb\<close> stands for
  \<^verbatim>\<open>File too large (${originalSizeMB.toFixed(1)}MB). Maximum size is 4.5MB.\<close>,
  \<open>VideosNotSupported\<close> for
  \<^verbatim>\<open>Videos are not currently supported. Please upload images or PDFs.\<close>; the message of a
  \<^verbatim>\<open>TypeError\<close> or \<^verbatim>\<open>SyntaxError\<close> is chosen by the runtime and that of an upstream failure
  by the provider's client library; \<open>EmptyMessage\<close> is the message of
  \<^verbatim>\<open>new Error(undefined)\<close> and \<open>ApiKeyNotSet\<close> is \<^verbatim>\<open>GEMINI_API_KEY is not set\<close>.
\<close>

datatype error_message =
    VideosNotSupported
  | FileTooLarge real
  | TypeErrorMessage
  | SyntaxErrorMessage
  | EmptyMessage
  | ApiKeyNotSet
  | UpstreamErrorMessage

record size_check =
  valid :: bool
  error :: "error_message option"

definition base64Length :: "string \<Rightarrow> nat" where
  "base64Length base64 = length (stripDataUrlHeader base64)"

text \<open>
  \<^verbatim>\<open>Math.floor(base64Length * 0.75)\<close> and \<^verbatim>\<open>originalSizeBytes / (1024 * 1024)\<close>. Both
  products are exact in double precision for every length a string can have, so the
  numbers are the reals.
\<close>

definition originalSizeBytes :: "string \<Rightarrow> nat" where
  "originalSizeBytes base64 = nat \<lfloor>real (base64Length base64) * 0.75\<rfloor>"

definition originalSizeMB :: "string \<Rightarrow> real" where
  "originalSizeMB base64 = real (originalSizeBytes base64) / (1024 * 1024)"

definition checkFileSize :: "string \<Rightarrow> string \<Rightarrow> size_check" where
  "checkFileSize base64 fileType =
     (if startsWith fileType ''video/'' then
        \<lparr>valid = False, error = Some VideosNotSupported\<rparr>
      else if originalSizeMB base64 > 4.5 then
        \<lparr>valid = False, error = Some (FileTooLarge (originalSizeMB base64))\<rparr>
      else \<lparr>valid = True, error = None\<rparr>)"

section \<open>The parsed attachment list\<close>

text \<open>
  \<^verbatim>\<open>JSON.parse(files)\<close> is the platform's parser; the model takes what it returns. An
  object keeps its members in the order of the text, and of two members with one key the
  later one counts.
\<close>

datatype json =
    JNull
  | JBool bool
  | JNum rat
  | JStr string
  | JArr "json list"
  | JObj "(string \<times> json) list"

datatype parsed = SyntaxError | Parsed json

text \<open>
  \<^verbatim>\<open>file.base64\<close> and \<^verbatim>\<open>file.type\<close>: reading a property of \<^verbatim>\<open>null\<close> throws a
  \<^verbatim>\<open>TypeError\<close>; a boolean, a number, a string and an array have neither property, and
  the read gives \<^verbatim>\<open>undefined\<close> (\<open>None\<close>).
\<close>

fun getProp :: "json \<Rightarrow> string \<Rightarrow> error_message + json option" where
  "getProp JNull k = Inl TypeErrorMessage"
| "getProp (JObj members) k = Inr (map_of (rev members) k)"
| "getProp v k = Inr None"

text \<open>
  The call \<^verbatim>\<open>checkFileSize(file.base64, file.type)\<close> on values that need not be strings:
  \<^verbatim>\<open>base64.replace\<close> throws a \<^verbatim>\<open>TypeError\<close> unless \<open>base64\<close> is a string, and then
  \<^verbatim>\<open>fileType.startsWith\<close> does unless \<open>fileType\<close> is one.
\<close>

definition callCheckFileSize :: "json option \<Rightarrow> json option \<Rightarrow> error_message + size_check" where
  "callCheckFileSize base64 fileType =
     (case base64 of
        Some (JStr b) \<Rightarrow>
          (case fileType of
             Some (JStr t) \<Rightarrow> Inr (checkFileSize b t)
           | _ \<Rightarrow> Inl TypeErrorMessage)
      | _ \<Rightarrow> Inl TypeErrorMessage)"

text \<open>
  The body of the validation loop for one \<open>file\<close>. It returns the two strings it read,
  which the handler reads again from the same parsed value when it builds the file parts.
\<close>

definition validateFile :: "json \<Rightarrow> error_message + (string \<times> string)" where
  "validateFile file =
     (case getProp file ''base64'' of
        Inl e \<Rightarrow> Inl e
      | Inr base64 \<Rightarrow>
          (case getProp file ''type'' of
             Inl e \<Rightarrow> Inl e
           | Inr fileType \<Rightarrow>
               (case callCheckFileSize base64 fileType of
                  Inl e \<Rightarrow> Inl e
                | Inr sizeCheck \<Rightarrow>
                    if \<not> valid sizeCheck then
                      Inl (case error sizeCheck of Some e \<Rightarrow> e | None \<Rightarrow> EmptyMessage)
                    else
                      (case (base64, fileType) of
                         (Some (JStr b), Some (JStr t)) \<Rightarrow> Inr (b, t)
                       | _ \<Rightarrow> Inl TypeErrorMessage))))"

fun validateFiles :: "json list \<Rightarrow> error_message + (string \<times> string) list" where
  "validateFiles [] = Inr []"
| "validateFiles (file # rest) =
     (case validateFile file of
        Inl e \<Rightarrow> Inl e
      | Inr a \<Rightarrow>
          (case validateFiles rest of
             Inl e \<Rightarrow> Inl e
           | Inr as \<Rightarrow> Inr (a # as)))"

text \<open>
  What \<^verbatim>\<open>for (const file of parsedFiles)\<close> visits, after \<^verbatim>\<open>parsedFiles.length\<close> has been
  read for the log line (a \<^verbatim>\<open>TypeError\<close> on \<^verbatim>\<open>null\<close>): the elements of an array, the
  one-character strings of a string, and a \<^verbatim>\<open>TypeError\<close> for a value that is not iterable.
\<close>

fun iterate :: "json \<Rightarrow> error_message + json list" where
  "iterate (JArr xs) = Inr xs"
| "iterate (JStr s) = Inr (map (\<lambda>c. JStr [c]) s)"
| "iterate v = Inl TypeErrorMessage"

section \<open>Messages\<close>

text \<open>
  A message of the request: its \<open>role\<close> and its \<open>content\<close>, which is a string, an array
  of parts or absent. A text part carries whatever the content of the message was; an
  image part carries the attachment's payload and, when given, its declared type.
\<close>

datatype content = Str string | Parts "part list" | Undefined
and part = TextPart content | ImagePart string "string option" | OtherPart

record message =
  role :: string
  content :: content

fun truthy :: "content \<Rightarrow> bool" where
  "truthy (Str s) = (s \<noteq> [])"
| "truthy (Parts ps) = True"
| "truthy Undefined = False"

text \<open>\<^verbatim>\<open>Array.prototype.findLastIndex\<close>; \<open>None\<close> is \<^verbatim>\<open>-1\<close>.\<close>

fun findLastIndex :: "('a \<Rightarrow> bool) \<Rightarrow> 'a list \<Rightarrow> nat option" where
  "findLastIndex P [] = None"
| "findLastIndex P (x # xs) =
     (case findLastIndex P xs of
        Some i \<Rightarrow> Some (Suc i)
      | None \<Rightarrow> if P x then Some 0 else None)"

text \<open>
  The block \<^verbatim>\<open>Attach files to the last user message\<close> of \<^verbatim>\<open>POST\<close>. \<open>files\<close> are the
  attachments the validation loop visited, so \<^verbatim>\<open>parsedFiles.length > 0\<close> is
  \<open>files \<noteq> []\<close>.
\<close>

definition attachFiles :: "message list \<Rightarrow> (string \<times> string) list \<Rightarrow> message list" where
  "attachFiles enhancedMessages files =
     (case findLastIndex (\<lambda>m. role m = ''user'') enhancedMessages of
        None \<Rightarrow> enhancedMessages
      | Some lastUserMessageIndex \<Rightarrow>
          if files \<noteq> [] then
            (let userMessage = enhancedMessages ! lastUserMessageIndex;
                 fileParts = map (\<lambda>(base64, fileType). ImagePart base64 (Some fileType)) files
             in enhancedMessages[lastUserMessageIndex :=
                  userMessage\<lparr>content :=
                    Parts (if truthy (content userMessage)
                           then TextPart (content userMessage) # fileParts
                           else fileParts)\<rparr>])
          else enhancedMessages)"

text \<open>The \<^verbatim>\<open>try\<close> block of \<^verbatim>\<open>if (files)\<close>: \<open>Inl\<close> is the error its \<^verbatim>\<open>catch\<close> receives.\<close>

definition processFiles :: "parsed \<Rightarrow> message list \<Rightarrow> error_message + message list" where
  "processFiles p enhancedMessages =
     (case p of
        SyntaxError \<Rightarrow> Inl SyntaxErrorMessage
      | Parsed parsedFiles \<Rightarrow>
          (case iterate parsedFiles of
             Inl e \<Rightarrow> Inl e
           | Inr visited \<Rightarrow>
               (case validateFiles visited of
                  Inl e \<Rightarrow> Inl e
                | Inr files \<Rightarrow> Inr (attachFiles enhancedMessages files))))"

section \<open>Translation to the provider's format\<close>

datatype gemini_part = Text content | InlineData string string

record gemini_content =
  g_role :: string
  parts :: "gemini_part list"

definition base64Data :: "string \<Rightarrow> string" where
  "base64Data img =
     (if includes_str img ''base64,'' then split img ''base64,'' ! 1 else img)"

fun convertPart :: "part \<Rightarrow> gemini_part list" where
  "convertPart (TextPart t) = [Text t]"
| "convertPart (ImagePart img fileType) =
     [InlineData (getMimeType (case fileType of Some t \<Rightarrow> t | None \<Rightarrow> '''') img)
                 (base64Data img)]"
| "convertPart OtherPart = []"

fun buildGoogleGenAIPrompt :: "message list \<Rightarrow> gemini_content list" where
  "buildGoogleGenAIPrompt [] = []"
| "buildGoogleGenAIPrompt (message # messages) =
     (if role message = ''user'' then
        [\<lparr>g_role = ''user'',
          parts = (case content message of
                     Str s \<Rightarrow> [Text (Str s)]
                   | Parts ps \<Rightarrow> concat (map convertPart ps)
                   | Undefined \<Rightarrow> [])\<rparr>]
      else if role message = ''assistant'' then
        [\<lparr>g_role = ''model'',
          parts = [Text (if truthy (content message) then content message else Str '''')]\<rparr>]
      else [])
     @ buildGoogleGenAIPrompt messages"

section \<open>The streaming relay\<close>

text \<open>
  The text of a reply is a JavaScript string of any content: the list of its UTF-16 code
  units. \<open>utf16\<close> writes such a text from a \<^typ>\<open>string\<close>, one code unit for each
  character.
\<close>

type_synonym byte = "8 word"

type_synonym code_unit = "16 word"

definition utf16 :: "string \<Rightarrow> code_unit list" where
  "utf16 s = map (\<lambda>c. word_of_nat (of_char c)) s"

text \<open>
  \<^verbatim>\<open>TextEncoder.encode\<close>. A high surrogate followed by a low surrogate stands for the
  code point of the pair; any other surrogate is replaced by U+FFFD; every other code unit
  is its own code point. Each code point is written in UTF-8.
\<close>

definition isLead :: "code_unit \<Rightarrow> bool" where
  "isLead u = (0xD800 \<le> unat u \<and> unat u \<le> 0xDBFF)"

definition isTrail :: "code_unit \<Rightarrow> bool" where
  "isTrail u = (0xDC00 \<le> unat u \<and> unat u \<le> 0xDFFF)"

definition scalarValue :: "code_unit \<Rightarrow> nat" where
  "scalarValue u = (if isLead u \<or> isTrail u then 0xFFFD else unat u)"

definition pairValue :: "code_unit \<Rightarrow> code_unit \<Rightarrow> nat" where
  "pairValue u v = 0x10000 + (unat u - 0xD800) * 0x400 + (unat v - 0xDC00)"

definition utf8 :: "nat \<Rightarrow> byte list" where
  "utf8 cp =
     (if cp < 0x80 then [word_of_nat cp]
      else if cp < 0x800 then
        [word_of_nat (0xC0 + cp div 0x40), word_of_nat (0x80 + cp mod 0x40)]
      else if cp < 0x10000 then
        [word_of_nat (0xE0 + cp div 0x1000), word_of_nat (0x80 + cp div 0x40 mod 0x40),
         word_of_nat (0x80 + cp mod 0x40)]
      else
        [word_of_nat (0xF0 + cp div 0x40000), word_of_nat (0x80 + cp div 0x1000 mod 0x40),
         word_of_nat (0x80 + cp div 0x40 mod 0x40), word_of_nat (0x80 + cp mod 0x40)])"

fun encode :: "code_unit list \<Rightarrow> byte list" where
  "encode [] = []"
| "encode [u] = utf8 (scalarValue u)"
| "encode (u # v # rest) =
     (if isLead u \<and> isTrail v then utf8 (pairValue u v) @ encode rest
      else utf8 (scalarValue u) @ encode (v # rest))"

text \<open>
  \<open>pairsKept\<close> holds of a list of texts when no text ends with a high surrogate that the
  next text continues with a low surrogate.
\<close>

fun pairsKept :: "code_unit list list \<Rightarrow> bool" where
  "pairsKept (a # b # cs) = (\<not> (isLead (last a) \<and> isTrail (hd b)) \<and> pairsKept (b # cs))"
| "pairsKept cs = True"

text \<open>
  The upstream stream, as the relay sees it: the texts \<^verbatim>\<open>chunk.text()\<close> of the chunks it
  yields, in order, and whether the iteration then completes or throws (a throwing
  \<^verbatim>\<open>chunk.text()\<close> ends the loop in the same \<^verbatim>\<open>catch\<close>).
\<close>

datatype stream_end = Completes | Throws

record gemini_stream =
  chunks :: "code_unit list list"
  ending :: stream_end

text \<open>
  The controller of the response's \<^verbatim>\<open>ReadableStream\<close>, with the transitions of the
  Streams standard: \<open>enqueued\<close> lists the chunks handed to the stream so far, oldest first.
  \<^verbatim>\<open>enqueue\<close> and \<^verbatim>\<open>close\<close> throw a \<^verbatim>\<open>TypeError\<close> (\<open>None\<close>) unless the stream is
  readable; \<^verbatim>\<open>error\<close> does nothing unless it is. A closed stream delivers every enqueued
  chunk and then ends; an errored stream delivers the chunks read before the error and then
  fails the read.
\<close>

datatype stream_state = Readable | Closed | Errored

record controller =
  enqueued :: "byte list list"
  state :: stream_state

definition controller_enqueue :: "controller \<Rightarrow> byte list \<Rightarrow> controller option" where
  "controller_enqueue c chunk =
     (if state c = Readable then Some (c\<lparr>enqueued := enqueued c @ [chunk]\<rparr>) else None)"

definition controller_close :: "controller \<Rightarrow> controller option" where
  "controller_close c = (if state c = Readable then Some (c\<lparr>state := Closed\<rparr>) else None)"

definition controller_error :: "controller \<Rightarrow> controller" where
  "controller_error c = (if state c = Readable then c\<lparr>state := Errored\<rparr> else c)"

text \<open>
  The \<^verbatim>\<open>for await\<close> loop inside \<^verbatim>\<open>try\<close>: the controller it leaves, and whether it was
  left by an exception.
\<close>

fun forAwait :: "code_unit list list \<Rightarrow> stream_end \<Rightarrow> controller \<Rightarrow> controller \<times> bool" where
  "forAwait [] Completes c = (c, False)"
| "forAwait [] Throws c = (c, True)"
| "forAwait (text # rest) e c =
     (if text \<noteq> [] then
        (case controller_enqueue c (encode text) of
           None \<Rightarrow> (c, True)
         | Some c' \<Rightarrow> forAwait rest e c')
      else forAwait rest e c)"

text \<open>
  \<^verbatim>\<open>start(controller)\<close>: the loop, \<^verbatim>\<open>controller.error\<close> in \<^verbatim>\<open>catch\<close>, and
  \<^verbatim>\<open>controller.close()\<close> in \<^verbatim>\<open>finally\<close>. When \<^verbatim>\<open>close\<close> throws, the promise of
  \<^verbatim>\<open>start\<close> is rejected and the stream errors its controller with the reason.
\<close>

definition start :: "gemini_stream \<Rightarrow> controller" where
  "start geminiStream =
     (let (c, threw) = forAwait (chunks geminiStream) (ending geminiStream)
                         \<lparr>enqueued = [], state = Readable\<rparr>;
          c' = (if threw then controller_error c else c)
      in case controller_close c' of
           Some c'' \<Rightarrow> c''
         | None \<Rightarrow> controller_error c')"

section \<open>The request handler\<close>

text \<open>
  What \<^verbatim>\<open>POST\<close> reads from its environment: the API key, and the provider's
  \<^verbatim>\<open>generateContentStream\<close>, whose promise is rejected or resolves to a stream. The model
  name, the system instruction and the generation options are constants of the call.
\<close>

datatype upstream_result = Rejected | Resolved gemini_stream

record env =
  GEMINI_API_KEY :: "string option"
  generateContentStream :: "gemini_content list \<Rightarrow> upstream_result"

text \<open>
  A response is either a JSON body \<^verbatim>\<open>{ error, details }\<close> with its status, or the status
  200 \<^verbatim>\<open>text/plain\<close> response whose body is the relay's stream.
\<close>

datatype body_text = Fixed string | Message error_message

datatype response =
    JsonResponse nat body_text body_text
  | StreamResponse controller

text \<open>
  \<^verbatim>\<open>POST\<close>, for a body whose \<open>messages\<close> is an array of messages. \<open>files\<close> is \<open>None\<close>
  when the body's \<^verbatim>\<open>files\<close> is absent or falsy, and otherwise what \<^verbatim>\<open>JSON.parse(files)\<close>
  does. The result is the response and the payloads passed to \<^verbatim>\<open>generateContentStream\<close>,
  one for each call.
\<close>

definition fileErrorDetails :: string where
  "fileErrorDetails =
     ''Please check the file size and type. Max size is 4.5MB for PDFs and images.''"

definition POST ::
  "env \<Rightarrow> message list \<Rightarrow> parsed option \<Rightarrow> response \<times> gemini_content list list" where
  "POST e messages files =
     (case (case files of
              None \<Rightarrow> Inr messages
            | Some p \<Rightarrow> processFiles p messages) of
        Inl errorMessage \<Rightarrow>
          (JsonResponse 400 (Message errorMessage) (Fixed fileErrorDetails), [])
      | Inr enhancedMessages \<Rightarrow>
          (case GEMINI_API_KEY e of
             None \<Rightarrow>
               (JsonResponse 500 (Fixed ''Failed to process chat request'') (Message ApiKeyNotSet),
                [])
           | Some apiKey \<Rightarrow>
               if apiKey = [] then
                 (JsonResponse 500 (Fixed ''Failed to process chat request'')
                    (Message ApiKeyNotSet),
                  [])
               else
                 (let contents = buildGoogleGenAIPrompt enhancedMessages
                  in case generateContentStream e contents of
                       Rejected \<Rightarrow>
                         (JsonResponse 500 (Fixed ''Failed to process chat request'')
                            (Message UpstreamErrorMessage),
                          [contents])
                     | Resolved geminiStream \<Rightarrow>
                         (StreamResponse (start geminiStream), [contents]))))"

text \<open>
  The \<^verbatim>\<open>files\<close> field of a body, absent (\<open>None\<close>) or a string, as \<^verbatim>\<open>POST\<close> takes it:
  \<^verbatim>\<open>if (files)\<close> is false for an absent field and for the empty string, and for every
  other string the block runs on what \<^verbatim>\<open>JSON.parse(files)\<close> does. \<open>JSON_parse\<close> stands for
  the platform's parser.
\<close>

definition filesField :: "(string \<Rightarrow> parsed) \<Rightarrow> string option \<Rightarrow> parsed option" where
  "filesField JSON_parse files =
     (case files of
        None \<Rightarrow> None
      | Some s \<Rightarrow> if s = [] then None else Some (JSON_parse s))"

section \<open>Chat history in the browser\<close>

text \<open>
  \<^verbatim>\<open>localStorage\<close> maps keys to strings. \<^verbatim>\<open>JSON.parse\<close> of a stored value is a parameter
  \<open>parse\<close> of the functions that read it (\<open>None\<close> when the \<^verbatim>\<open>try\<close> block throws), and
  \<^verbatim>\<open>JSON.stringify\<close> a parameter \<open>stringify\<close> of the one that writes.
\<close>

type_synonym localStorage = "string \<rightharpoonup> string"

definition STORAGE_KEY :: string where
  "STORAGE_KEY = ''documind_chats''"

definition CURRENT_CHAT_KEY :: string where
  "CURRENT_CHAT_KEY = ''documind_current_chat''"

record client_message =
  m_id :: string
  m_role :: string
  m_content :: string

record ChatHistory =
  chat_id :: string
  title :: string
  timestamp :: int
  chat_messages :: "client_message list"

text \<open>The state of \<^verbatim>\<open>ChatInterface\<close> that the history functions read or write.\<close>

record chat_interface =
  messages :: "client_message list"
  currentChatId :: "string option"
  chatHistory :: "ChatHistory list"
  isMobileMenuOpen :: bool

definition initial :: chat_interface where
  "initial = \<lparr>messages = [], currentChatId = None, chatHistory = [], isMobileMenuOpen = False\<rparr>"

text \<open>\<^verbatim>\<open>sort((a, b) => b.timestamp - a.timestamp)\<close>: newest first, stable.\<close>

definition sortByRecency :: "ChatHistory list \<Rightarrow> ChatHistory list" where
  "sortByRecency history = sort_key (\<lambda>c. - timestamp c) history"

text \<open>The effect \<^verbatim>\<open>Load chat history from localStorage on mount\<close>.\<close>

definition loadOnMount ::
  "(string \<Rightarrow> ChatHistory list option) \<Rightarrow> localStorage \<Rightarrow> chat_interface \<Rightarrow> chat_interface" where
  "loadOnMount parse ls st =
     (case ls STORAGE_KEY of
        None \<Rightarrow> st
      | Some savedChats \<Rightarrow>
          if savedChats = [] then st
          else
            (case parse savedChats of
               None \<Rightarrow> st
             | Some history \<Rightarrow>
                 (let sorted = sortByRecency history;
                      st1 = st\<lparr>chatHistory := sorted\<rparr>
                  in case ls CURRENT_CHAT_KEY of
                       None \<Rightarrow> st1
                     | Some cid \<Rightarrow>
                         if cid \<noteq> [] \<and> sorted \<noteq> [] then
                           (case find (\<lambda>c. chat_id c = cid) sorted of
                              Some currentChat \<Rightarrow>
                                st1\<lparr>messages := chat_messages currentChat,
                                    currentChatId := Some (chat_id currentChat)\<rparr>
                            | None \<Rightarrow> st1)
                         else st1)))"

text \<open>
  The effect \<^verbatim>\<open>Auto-save messages to localStorage\<close>, which runs when \<open>messages\<close> or
  \<open>currentChatId\<close> has changed. \<open>nowId\<close> is \<^verbatim>\<open>Date.now().toString()\<close> and \<open>now\<close> is
  \<^verbatim>\<open>Date.now()\<close>.
\<close>

definition autoSave ::
  "(ChatHistory list \<Rightarrow> string) \<Rightarrow> string \<Rightarrow> int \<Rightarrow> localStorage \<times> chat_interface
     \<Rightarrow> localStorage \<times> chat_interface" where
  "autoSave stringify nowId now lsst =
     (let (ls, st) = lsst
      in if messages st = [] then (ls, st)
         else
           (let chatId = (case currentChatId st of
                            None \<Rightarrow> nowId
                          | Some c \<Rightarrow> if c = [] then nowId else c);
                content = (case find (\<lambda>m. m_role m = ''user'') (messages st) of
                             None \<Rightarrow> []
                           | Some firstUserMessage \<Rightarrow> m_content firstUserMessage);
                sliced = take 40 content @ (if length content > 40 then ''...'' else []);
                updatedChat = \<lparr>chat_id = chatId,
                               title = (if sliced = [] then ''New Chat'' else sliced),
                               timestamp = now,
                               chat_messages = messages st\<rparr>;
                filtered = filter (\<lambda>c. chat_id c \<noteq> chatId) (chatHistory st);
                newHistory = sortByRecency (updatedChat # filtered)
            in ((ls(STORAGE_KEY \<mapsto> stringify newHistory))(CURRENT_CHAT_KEY \<mapsto> chatId),
                st\<lparr>chatHistory := newHistory, currentChatId := Some chatId\<rparr>)))"

text \<open>
  \<^verbatim>\<open>clearHistory\<close>; \<open>confirmed\<close> is what \<^verbatim>\<open>confirm(...)\<close> returns. The second copy of the
  component also shows a toast.
\<close>

definition clearHistory :: "bool \<Rightarrow> localStorage \<times> chat_interface \<Rightarrow> localStorage \<times> chat_interface" where
  "clearHistory confirmed lsst =
     (let (ls, st) = lsst
      in if confirmed then
           ((ls(STORAGE_KEY := None))(CURRENT_CHAT_KEY := None),
            st\<lparr>messages := [], currentChatId := None, chatHistory := [],
               isMobileMenuOpen := False\<rparr>)
         else (ls, st))"

text \<open>
  \<^verbatim>\<open>loadHistory\<close> of the sidebar, which runs on mount and on every
  \<^verbatim>\<open>chat-history-updated\<close> event: the five most recent sessions. The first copy of the
  component empties the list when nothing is stored or reading fails; the second copy,
  \<open>loadHistory_kept\<close>, leaves the list as it is.
\<close>

definition loadHistory ::
  "(string \<Rightarrow> ChatHistory list option) \<Rightarrow> localStorage \<Rightarrow> ChatHistory list \<Rightarrow> ChatHistory list" where
  "loadHistory parse ls history =
     (case ls STORAGE_KEY of
        None \<Rightarrow> []
      | Some savedChats \<Rightarrow>
          if savedChats = [] then []
          else (case parse savedChats of
                  None \<Rightarrow> []
                | Some parsed \<Rightarrow> take 5 (sortByRecency parsed)))"

definition loadHistory_kept ::
  "(string \<Rightarrow> ChatHistory list option) \<Rightarrow> localStorage \<Rightarrow> ChatHistory list \<Rightarrow> ChatHistory list" where
  "loadHistory_kept parse ls history =
     (case ls STORAGE_KEY of
        None \<Rightarrow> history
      | Some savedChats \<Rightarrow>
          if savedChats = [] then history
          else (case parse savedChats of
                  None \<Rightarrow> history
                | Some parsed \<Rightarrow> take 5 (sortByRecency parsed)))"

section \<open>The expected shape of the attachment list\<close>

text \<open>
  The request carries \<^verbatim>\<open>files\<close> as the JSON text of a list of attachment descriptors.
  \<open>attachmentList\<close> holds of a parsed value that is an array each of whose elements has
  the two properties the handler reads, \<^verbatim>\<open>base64\<close> and \<^verbatim>\<open>type\<close>, as strings.
\<close>

definition hasString :: "json \<Rightarrow> string \<Rightarrow> bool" where
  "hasString v k = (case getProp v k of Inr (Some (JStr s)) \<Rightarrow> True | _ \<Rightarrow> False)"

definition attachmentDescriptor :: "json \<Rightarrow> bool" where
  "attachmentDescriptor v = (hasString v ''base64'' \<and> hasString v ''type'')"

fun attachmentList :: "json \<Rightarrow> bool" where
  "attachmentList (JArr xs) = list_all attachmentDescriptor xs"
| "attachmentList v = False"

section \<open>The size computed for an attachment\<close>

lemma originalSizeBytes_eq: "originalSizeBytes b = (3 * base64Length b) div 4"
proof -
  have "real (base64Length b) * 0.75 = real (3 * base64Length b) / real 4" by simp
  then have "\<lfloor>real (base64Length b) * 0.75\<rfloor> = int ((3 * base64Length b) div 4)"
    by (simp only: floor_divide_of_nat_eq)
  then show ?thesis by (simp add: originalSizeBytes_def)
qed

lemma originalSizeMB_gt: "originalSizeMB b > 4.5 \<longleftrightarrow> originalSizeBytes b > 4718592"
  by (simp add: originalSizeMB_def field_simps)

section \<open>Rejected attachments\<close>

lemma validateFiles_append_fail:
  "validateFiles pre = Inr as \<Longrightarrow> validateFile file = Inl m \<Longrightarrow>
   validateFiles (pre @ file # post) = Inl m"
  by (induction pre arbitrary: as) (auto split: sum.splits)

lemma validateFiles_member_fail:
  "file \<in> set xs \<Longrightarrow> validateFile file = Inl m \<Longrightarrow> \<exists>m'. validateFiles xs = Inl m'"
  by (induction xs) (auto split: sum.splits)

lemma POST_rejects:
  "processFiles p msgs = Inl m \<Longrightarrow>
   POST e msgs (Some p) = (JsonResponse 400 (Message m) (Fixed fileErrorDetails), [])"
  by (simp add: POST_def)

lemma processFiles_array:
  "processFiles (Parsed (JArr xs)) msgs =
     (case validateFiles xs of Inl m \<Rightarrow> Inl m | Inr files \<Rightarrow> Inr (attachFiles msgs files))"
  by (simp add: processFiles_def)

lemma getProp_type_total:
  "getProp file ''base64'' = Inr (Some v) \<Longrightarrow> \<exists>w. getProp file ''type'' = Inr w"
  by (cases "file") auto

lemma validateFile_video:
  assumes "getProp file ''base64'' = Inr (Some (JStr b))"
    and "getProp file ''type'' = Inr (Some (JStr t))"
    and "startsWith t ''video/''"
  shows "validateFile file = Inl VideosNotSupported"
  using assms by (simp add: validateFile_def callCheckFileSize_def checkFileSize_def)

lemma validateFile_video_fails:
  assumes "getProp file ''type'' = Inr (Some (JStr t))" and "startsWith t ''video/''"
  shows "\<exists>m. validateFile file = Inl m"
proof -
  obtain w where w: "getProp file ''base64'' = Inr w"
    using assms(1) by (cases "file") auto
  show ?thesis
    using assms w
    by (auto simp: validateFile_def callCheckFileSize_def checkFileSize_def
             split: option.splits json.splits)
qed

lemma validateFile_too_large:
  assumes "getProp file ''base64'' = Inr (Some (JStr b))"
    and "getProp file ''type'' = Inr (Some (JStr t))"
    and "\<not> startsWith t ''video/''"
    and "originalSizeMB b > 4.5"
  shows "validateFile file = Inl (FileTooLarge (originalSizeMB b))"
  using assms by (simp add: validateFile_def callCheckFileSize_def checkFileSize_def)

lemma validateFile_oversized_fails:
  assumes "getProp file ''base64'' = Inr (Some (JStr b))"
    and "originalSizeMB b > 4.5"
  shows "\<exists>m. validateFile file = Inl m"
proof -
  obtain w where w: "getProp file ''type'' = Inr w"
    using getProp_type_total [OF assms(1)] by blast
  show ?thesis
    using assms w
    by (auto simp: validateFile_def callCheckFileSize_def checkFileSize_def
             split: option.splits json.splits)
qed

text \<open>
  Claim C2. An attachment whose declared type starts with \<^verbatim>\<open>video/\<close> fails validation with
  the videos-not-supported error, whatever its payload and so whatever its size. A request
  whose list holds such an attachment is answered with status 400 and a JSON body, and
  \<^verbatim>\<open>generateContentStream\<close> is not called; the body carries the videos-not-supported
  message when the attachments before it pass validation.
\<close>

theorem C2_video_rejected:
  assumes "startsWith t ''video/''"
  shows "checkFileSize b t = \<lparr>valid = False, error = Some VideosNotSupported\<rparr>
    \<and> (getProp file ''type'' = Inr (Some (JStr t)) \<longrightarrow>
         (file \<in> set xs \<longrightarrow>
            (\<exists>m. POST e msgs (Some (Parsed (JArr xs)))
                   = (JsonResponse 400 (Message m) (Fixed fileErrorDetails), [])))
         \<and> (getProp file ''base64'' = Inr (Some (JStr b)) \<longrightarrow>
              validateFile file = Inl VideosNotSupported
              \<and> (validateFiles pre = Inr as \<longrightarrow>
                   POST e msgs (Some (Parsed (JArr (pre @ file # post))))
                     = (JsonResponse 400 (Message VideosNotSupported)
                          (Fixed fileErrorDetails), []))))"
proof (intro conjI impI)
  show "checkFileSize b t = \<lparr>valid = False, error = Some VideosNotSupported\<rparr>"
    using assms by (simp add: checkFileSize_def)
next
  assume t: "getProp file ''type'' = Inr (Some (JStr t))" and "file \<in> set xs"
  moreover obtain m where "validateFile file = Inl m"
    using validateFile_video_fails [OF t assms] by blast
  ultimately obtain m' where "validateFiles xs = Inl m'"
    using validateFiles_member_fail by blast
  then have "processFiles (Parsed (JArr xs)) msgs = Inl m'"
    by (simp add: processFiles_array)
  then show "\<exists>m. POST e msgs (Some (Parsed (JArr xs)))
                   = (JsonResponse 400 (Message m) (Fixed fileErrorDetails), [])"
    using POST_rejects by blast
next
  assume t: "getProp file ''type'' = Inr (Some (JStr t))"
    and f: "getProp file ''base64'' = Inr (Some (JStr b))"
  show v: "validateFile file = Inl VideosNotSupported"
    using f t assms by (rule validateFile_video)
  assume "validateFiles pre = Inr as"
  then have "validateFiles (pre @ file # post) = Inl VideosNotSupported"
    using v validateFiles_append_fail by blast
  then have "processFiles (Parsed (JArr (pre @ file # post))) msgs = Inl VideosNotSupported"
    by (simp add: processFiles_array)
  then show "POST e msgs (Some (Parsed (JArr (pre @ file # post))))
                = (JsonResponse 400 (Message VideosNotSupported) (Fixed fileErrorDetails), [])"
    using POST_rejects by blast
qed

text \<open>A request with one video attachment.\<close>

theorem C2_video_rejected_witness:
  "startsWith ''video/mp4'' ''video/''
   \<and> checkFileSize ''data:video/mp4;base64,AAAA'' ''video/mp4''
       = \<lparr>valid = False, error = Some VideosNotSupported\<rparr>
   \<and> POST \<lparr>GEMINI_API_KEY = Some ''key'',
            generateContentStream = (\<lambda>contents. Resolved \<lparr>chunks = [utf16 ''ok''], ending = Completes\<rparr>)\<rparr>
        [\<lparr>role = ''user'', content = Str ''What is in this clip?''\<rparr>]
        (Some (Parsed (JArr [JObj [(''id'', JStr ''1''), (''name'', JStr ''clip.mp4''),
                                   (''type'', JStr ''video/mp4''),
                                   (''base64'', JStr ''data:video/mp4;base64,AAAA'')]])))
       = (JsonResponse 400 (Message VideosNotSupported) (Fixed fileErrorDetails), [])"
proof -
  have h: "startsWith ''video/mp4'' ''video/''"
    by (simp add: startsWith_def)
  show ?thesis
    using h C2_video_rejected [OF h, of "''data:video/mp4;base64,AAAA''"
        "JObj [(''id'', JStr ''1''), (''name'', JStr ''clip.mp4''),
               (''type'', JStr ''video/mp4''),
               (''base64'', JStr ''data:video/mp4;base64,AAAA'')]" "[]" _ _ "[]" "[]" "[]"]
    by simp
qed

section \<open>The payload of an image part\<close>

lemma splitFrom_not_Nil: "splitFrom sep acc s \<noteq> []"
  by (induction sep acc s rule: splitFrom.induct) simp_all

lemma splitFrom_two:
  "sep \<noteq> [] \<Longrightarrow> includes_str s sep \<Longrightarrow> 2 \<le> length (splitFrom sep acc s)"
proof (induction sep acc s rule: splitFrom.induct)
  case (1 sep acc)
  then show ?case by simp
next
  case (2 sep acc c cs)
  show ?case
  proof (cases "startsWith (c # cs) sep")
    case True
    have "1 \<le> length (splitFrom sep [] (drop (length sep - 1) cs))"
      using splitFrom_not_Nil [of sep "[]" "drop (length sep - 1) cs"]
      by (cases "splitFrom sep [] (drop (length sep - 1) cs)") simp_all
    with True "2.prems" show ?thesis by simp
  next
    case False
    with "2.prems" have "includes_str cs sep" by simp
    with False "2.IH"(2) "2.prems" show ?thesis by simp
  qed
qed

lemma base64Data_defined:
  "includes_str img ''base64,'' \<Longrightarrow> 1 < length (split img ''base64,'')"
  using splitFrom_two [of "''base64,''" img "[]"] by (simp add: split_def)

section \<open>Oversized attachments\<close>

text \<open>
  Claim C1, as amended. Take an attachment whose computed size exceeds 4.5 MB. If its
  declared type does not start with \<^verbatim>\<open>video/\<close>, its validation fails with the
  file-too-large error. A request whose list holds the attachment is answered with status
  400 and a JSON body, and \<^verbatim>\<open>generateContentStream\<close> is not called; the body carries the
  file-too-large message when the declared type is not a video type and the attachments
  before it pass validation.
\<close>

theorem C1_oversized_rejected:
  assumes "originalSizeMB b > 4.5"
  shows "(\<not> startsWith t ''video/'' \<longrightarrow>
            checkFileSize b t = \<lparr>valid = False, error = Some (FileTooLarge (originalSizeMB b))\<rparr>)
    \<and> (getProp file ''base64'' = Inr (Some (JStr b)) \<longrightarrow>
         (file \<in> set xs \<longrightarrow>
            (\<exists>m. POST e msgs (Some (Parsed (JArr xs)))
                   = (JsonResponse 400 (Message m) (Fixed fileErrorDetails), [])))
         \<and> (getProp file ''type'' = Inr (Some (JStr t)) \<and> \<not> startsWith t ''video/''
              \<and> validateFiles pre = Inr as \<longrightarrow>
              POST e msgs (Some (Parsed (JArr (pre @ file # post))))
                = (JsonResponse 400 (Message (FileTooLarge (originalSizeMB b)))
                     (Fixed fileErrorDetails), [])))"
proof (intro conjI impI)
  assume "\<not> startsWith t ''video/''"
  then show "checkFileSize b t = \<lparr>valid = False, error = Some (FileTooLarge (originalSizeMB b))\<rparr>"
    using assms by (simp add: checkFileSize_def)
next
  assume f: "getProp file ''base64'' = Inr (Some (JStr b))" and "file \<in> set xs"
  moreover obtain m where "validateFile file = Inl m"
    using validateFile_oversized_fails [OF f assms] by blast
  ultimately obtain m' where "validateFiles xs = Inl m'"
    using validateFiles_member_fail by blast
  then have "processFiles (Parsed (JArr xs)) msgs = Inl m'"
    by (simp add: processFiles_array)
  then show "\<exists>m. POST e msgs (Some (Parsed (JArr xs)))
                   = (JsonResponse 400 (Message m) (Fixed fileErrorDetails), [])"
    using POST_rejects by blast
next
  assume f: "getProp file ''base64'' = Inr (Some (JStr b))"
    and g: "getProp file ''type'' = Inr (Some (JStr t)) \<and> \<not> startsWith t ''video/''
              \<and> validateFiles pre = Inr as"
  have "validateFile file = Inl (FileTooLarge (originalSizeMB b))"
    using f g assms validateFile_too_large by blast
  then have "validateFiles (pre @ file # post) = Inl (FileTooLarge (originalSizeMB b))"
    using g validateFiles_append_fail by blast
  then have "processFiles (Parsed (JArr (pre @ file # post))) msgs
               = Inl (FileTooLarge (originalSizeMB b))"
    by (simp add: processFiles_array)
  then show "POST e msgs (Some (Parsed (JArr (pre @ file # post))))
                = (JsonResponse 400 (Message (FileTooLarge (originalSizeMB b)))
                     (Fixed fileErrorDetails), [])"
    using POST_rejects by blast
qed

text \<open>
  A PNG data URL with 6291460 payload characters: 4718595 bytes by the handler's count,
  three above the limit.
\<close>

lemma originalSizeMB_replicate:
  "originalSizeMB (''data:image/png;base64,'' @ replicate 6291460 (CHR ''A'')) = 4718595 / 1048576"
  by (simp add: originalSizeMB_def originalSizeBytes_def base64Length_def
        stripDataUrlHeader_def startsWith_def)

text \<open>A request with that attachment alone.\<close>

theorem C1_oversized_rejected_witness:
  "originalSizeMB (''data:image/png;base64,'' @ replicate 6291460 (CHR ''A'')) > 4.5
   \<and> POST \<lparr>GEMINI_API_KEY = Some ''key'',
            generateContentStream = (\<lambda>contents. Resolved \<lparr>chunks = [utf16 ''ok''], ending = Completes\<rparr>)\<rparr>
        [\<lparr>role = ''user'', content = Str ''Summarize this''\<rparr>]
        (Some (Parsed (JArr [JObj [(''id'', JStr ''1''), (''name'', JStr ''scan.png''),
            (''type'', JStr ''image/png''),
            (''base64'', JStr (''data:image/png;base64,'' @ replicate 6291460 (CHR ''A'')))]])))
       = (JsonResponse 400 (Message (FileTooLarge (4718595 / 1048576))) (Fixed fileErrorDetails), [])"
proof -
  have h: "originalSizeMB (''data:image/png;base64,'' @ replicate 6291460 (CHR ''A'')) > 4.5"
    using originalSizeMB_replicate by simp
  show ?thesis
    using h C1_oversized_rejected [OF h, of "''image/png''"
        "JObj [(''id'', JStr ''1''), (''name'', JStr ''scan.png''),
            (''type'', JStr ''image/png''),
            (''base64'', JStr (''data:image/png;base64,'' @ replicate 6291460 (CHR ''A'')))]"
        "[]" _ _ "[]" "[]" "[]"] originalSizeMB_replicate
    by (simp add: startsWith_def)
qed

text \<open>
  Claim C1 as stated fails for an oversized attachment declared as a video: the request is
  answered with the videos-not-supported message, not the file-too-large one.
\<close>

theorem C1_counterexample:
  "originalSizeMB (''data:video/mp4;base64,'' @ replicate 6291460 (CHR ''A'')) > 4.5
   \<and> POST \<lparr>GEMINI_API_KEY = Some ''key'',
            generateContentStream = (\<lambda>contents. Resolved \<lparr>chunks = [utf16 ''ok''], ending = Completes\<rparr>)\<rparr>
        [\<lparr>role = ''user'', content = Str ''Summarize this''\<rparr>]
        (Some (Parsed (JArr [JObj [(''id'', JStr ''1''), (''name'', JStr ''clip.mp4''),
            (''type'', JStr ''video/mp4''),
            (''base64'', JStr (''data:video/mp4;base64,'' @ replicate 6291460 (CHR ''A'')))]])))
       = (JsonResponse 400 (Message VideosNotSupported) (Fixed fileErrorDetails), [])"
  by (simp add: originalSizeMB_def originalSizeBytes_def base64Length_def
        stripDataUrlHeader_def startsWith_def POST_def processFiles_def validateFile_def
        callCheckFileSize_def checkFileSize_def)

section \<open>Malformed attachment lists\<close>

lemma validateFile_malformed:
  "\<not> attachmentDescriptor file \<Longrightarrow> \<exists>m. validateFile file = Inl m"
  by (cases "file")
     (auto simp: attachmentDescriptor_def hasString_def validateFile_def callCheckFileSize_def
           split: option.splits json.splits sum.splits)

lemma processFiles_not_list:
  assumes "\<not> attachmentList v" and "v \<noteq> JStr []"
  shows "\<exists>m. processFiles (Parsed v) msgs = Inl m"
proof (cases v)
  case (JStr s)
  with assms(2) obtain c cs where s: "s = c # cs"
    by (cases s) auto
  have "validateFile (JStr [c]) = Inl TypeErrorMessage"
    by (simp add: validateFile_def callCheckFileSize_def)
  then show ?thesis
    by (simp add: processFiles_def JStr s)
next
  case (JArr xs)
  with assms(1) obtain f where "f \<in> set xs" and "\<not> attachmentDescriptor f"
    by (auto simp: list_all_iff)
  then obtain m where "validateFiles xs = Inl m"
    using validateFile_malformed validateFiles_member_fail by blast
  then show ?thesis
    by (simp add: processFiles_array JArr)
qed (simp_all add: processFiles_def)

text \<open>
  Claim C9, as amended. When the \<^verbatim>\<open>files\<close> string is not empty and \<^verbatim>\<open>JSON.parse(files)\<close>
  throws, or returns a value that is not a list of attachment descriptors and is not the
  empty string, the request is answered with status 400 and a JSON body, and
  \<^verbatim>\<open>generateContentStream\<close> is not called.
\<close>

theorem C9_malformed_list_rejected:
  assumes "files \<noteq> []"
    and "JSON_parse files = SyntaxError
         \<or> (\<exists>v. JSON_parse files = Parsed v \<and> \<not> attachmentList v \<and> v \<noteq> JStr [])"
  shows "\<exists>m. POST e msgs (filesField JSON_parse (Some files))
               = (JsonResponse 400 (Message m) (Fixed fileErrorDetails), [])"
proof -
  have "filesField JSON_parse (Some files) = Some (JSON_parse files)"
    using assms(1) by (simp add: filesField_def)
  moreover have "\<exists>m. processFiles (JSON_parse files) msgs = Inl m"
    using assms(2) processFiles_not_list by (auto simp: processFiles_def)
  ultimately show ?thesis
    using POST_rejects by auto
qed

text \<open>
  The text \<^verbatim>\<open>[{}]\<close>: a list whose only element has neither \<^verbatim>\<open>base64\<close> nor \<^verbatim>\<open>type\<close>.
\<close>

theorem C9_malformed_list_rejected_witness:
  "''[{}]'' \<noteq> []
   \<and> \<not> attachmentList (JArr [JObj []])
   \<and> JArr [JObj []] \<noteq> JStr []
   \<and> POST \<lparr>GEMINI_API_KEY = Some ''key'',
            generateContentStream =
              (\<lambda>contents. Resolved \<lparr>chunks = [utf16 ''ok''], ending = Completes\<rparr>)\<rparr>
        [\<lparr>role = ''user'', content = Str ''Summarize this''\<rparr>]
        (filesField (\<lambda>s. if s = ''[{}]'' then Parsed (JArr [JObj []]) else SyntaxError)
           (Some ''[{}]''))
       = (JsonResponse 400 (Message TypeErrorMessage) (Fixed fileErrorDetails), [])"
proof -
  have n: "''[{}]'' \<noteq> []"
    by simp
  show ?thesis
    using n C9_malformed_list_rejected [of "''[{}]''"
        "\<lambda>s. if s = ''[{}]'' then Parsed (JArr [JObj []]) else SyntaxError"
        "\<lparr>GEMINI_API_KEY = Some ''key'',
          generateContentStream =
            (\<lambda>contents. Resolved \<lparr>chunks = [utf16 ''ok''], ending = Completes\<rparr>)\<rparr>"
        "[\<lparr>role = ''user'', content = Str ''Summarize this''\<rparr>]"]
    by (simp add: attachmentDescriptor_def hasString_def POST_def processFiles_def
          validateFile_def callCheckFileSize_def filesField_def)
qed

text \<open>
  Claim C9 as stated fails in two ways. When \<^verbatim>\<open>files\<close> is the JSON text of the empty
  string, the parsed value is not a list, the loop visits nothing, and the upstream is
  called. When \<^verbatim>\<open>files\<close> is the empty string, which \<^verbatim>\<open>JSON.parse\<close> rejects, the block is
  not entered and the upstream is called.
\<close>

theorem C9_counterexample:
  "\<not> attachmentList (JStr [])
   \<and> POST \<lparr>GEMINI_API_KEY = Some ''key'',
            generateContentStream =
              (\<lambda>contents. Resolved \<lparr>chunks = [utf16 ''ok''], ending = Completes\<rparr>)\<rparr>
        [\<lparr>role = ''user'', content = Str ''Summarize this''\<rparr>]
        (Some (Parsed (JStr [])))
       = (StreamResponse \<lparr>enqueued = [[111, 107]], state = Closed\<rparr>,
          [[\<lparr>g_role = ''user'', parts = [Text (Str ''Summarize this'')]\<rparr>]])
   \<and> POST \<lparr>GEMINI_API_KEY = Some ''key'',
            generateContentStream =
              (\<lambda>contents. Resolved \<lparr>chunks = [utf16 ''ok''], ending = Completes\<rparr>)\<rparr>
        [\<lparr>role = ''user'', content = Str ''Summarize this''\<rparr>]
        (filesField (\<lambda>s. SyntaxError) (Some []))
       = (StreamResponse \<lparr>enqueued = [[111, 107]], state = Closed\<rparr>,
          [[\<lparr>g_role = ''user'', parts = [Text (Str ''Summarize this'')]\<rparr>]])"
  by (simp add: POST_def processFiles_def attachFiles_def start_def controller_enqueue_def
        controller_close_def controller_error_def filesField_def utf16_def utf8_def
        scalarValue_def isLead_def isTrail_def)

section \<open>Translated messages\<close>

lemma buildGoogleGenAIPrompt_append:
  "buildGoogleGenAIPrompt (xs @ ys) = buildGoogleGenAIPrompt xs @ buildGoogleGenAIPrompt ys"
  by (induction xs) simp_all

lemma buildGoogleGenAIPrompt_nth:
  assumes "i < length msgs"
  shows "buildGoogleGenAIPrompt msgs =
         buildGoogleGenAIPrompt (take i msgs) @ buildGoogleGenAIPrompt [msgs ! i]
           @ buildGoogleGenAIPrompt (drop (Suc i) msgs)"
proof -
  have "msgs = take i msgs @ [msgs ! i] @ drop (Suc i) msgs"
    using assms by (simp add: id_take_nth_drop)
  then have "buildGoogleGenAIPrompt msgs =
      buildGoogleGenAIPrompt (take i msgs @ [msgs ! i] @ drop (Suc i) msgs)"
    by simp
  then show ?thesis
    by (simp only: buildGoogleGenAIPrompt_append)
qed

lemma buildGoogleGenAIPrompt_update:
  assumes "i < length msgs"
  shows "buildGoogleGenAIPrompt (msgs[i := m]) =
         buildGoogleGenAIPrompt (take i msgs) @ buildGoogleGenAIPrompt [m]
           @ buildGoogleGenAIPrompt (drop (Suc i) msgs)"
  using assms buildGoogleGenAIPrompt_nth [of i "msgs[i := m]"] by simp

text \<open>
  Claim C4. The payload is the concatenation of the translations of the messages, in
  order. A message with role \<^verbatim>\<open>assistant\<close> and text content becomes one entry with role
  \<^verbatim>\<open>model\<close> and a single text part holding that text; a message with role \<^verbatim>\<open>user\<close>
  becomes one entry with role \<^verbatim>\<open>user\<close>.
\<close>

theorem C4_assistant_relabelled:
  assumes "i < length msgs"
  shows "buildGoogleGenAIPrompt msgs =
           buildGoogleGenAIPrompt (take i msgs) @ buildGoogleGenAIPrompt [msgs ! i]
             @ buildGoogleGenAIPrompt (drop (Suc i) msgs)
    \<and> (role (msgs ! i) = ''assistant'' \<and> content (msgs ! i) = Str text \<longrightarrow>
          buildGoogleGenAIPrompt [msgs ! i] = [\<lparr>g_role = ''model'', parts = [Text (Str text)]\<rparr>])
    \<and> (role (msgs ! i) = ''user'' \<longrightarrow>
          (\<exists>ps. buildGoogleGenAIPrompt [msgs ! i] = [\<lparr>g_role = ''user'', parts = ps\<rparr>]))"
proof (intro conjI impI)
  show "buildGoogleGenAIPrompt msgs =
           buildGoogleGenAIPrompt (take i msgs) @ buildGoogleGenAIPrompt [msgs ! i]
             @ buildGoogleGenAIPrompt (drop (Suc i) msgs)"
    using assms by (rule buildGoogleGenAIPrompt_nth)
next
  assume "role (msgs ! i) = ''assistant'' \<and> content (msgs ! i) = Str text"
  then show "buildGoogleGenAIPrompt [msgs ! i] = [\<lparr>g_role = ''model'', parts = [Text (Str text)]\<rparr>]"
    by (cases "text = []") simp_all
next
  assume "role (msgs ! i) = ''user''"
  then show "\<exists>ps. buildGoogleGenAIPrompt [msgs ! i] = [\<lparr>g_role = ''user'', parts = ps\<rparr>]"
    by simp
qed

text \<open>A history of three messages, the second from the assistant.\<close>

theorem C4_assistant_relabelled_witness:
  "(1::nat) < length [\<lparr>role = ''user'', content = Str ''Hi''\<rparr>,
                      \<lparr>role = ''assistant'', content = Str ''Hello''\<rparr>,
                      \<lparr>role = ''user'', content = Str ''Thanks''\<rparr>]
   \<and> buildGoogleGenAIPrompt [\<lparr>role = ''user'', content = Str ''Hi''\<rparr>,
                              \<lparr>role = ''assistant'', content = Str ''Hello''\<rparr>,
                              \<lparr>role = ''user'', content = Str ''Thanks''\<rparr>]
       = [\<lparr>g_role = ''user'', parts = [Text (Str ''Hi'')]\<rparr>,
          \<lparr>g_role = ''model'', parts = [Text (Str ''Hello'')]\<rparr>,
          \<lparr>g_role = ''user'', parts = [Text (Str ''Thanks'')]\<rparr>]"
proof -
  have h: "(1::nat) < length [\<lparr>role = ''user'', content = Str ''Hi''\<rparr>,
                      \<lparr>role = ''assistant'', content = Str ''Hello''\<rparr>,
                      \<lparr>role = ''user'', content = Str ''Thanks''\<rparr>]"
    by simp
  show ?thesis
    using h C4_assistant_relabelled [OF h, of "''Hello''"] by simp
qed

text \<open>
  Claim C5, as amended. A declared type \<^verbatim>\<open>image/png\<close>, \<^verbatim>\<open>application/pdf\<close> or
  \<^verbatim>\<open>video/...\<close> is used as it is; any other declared \<^verbatim>\<open>image/...\<close> type gives
  \<^verbatim>\<open>image/jpeg\<close>. For every other declared type, and when none is declared, the payload
  is searched for \<^verbatim>\<open>data:image/png\<close>, then \<^verbatim>\<open>data:image/jpeg\<close> or
  \<^verbatim>\<open>data:image/jpg\<close>, then \<^verbatim>\<open>data:application/pdf\<close>, and the default is
  \<^verbatim>\<open>image/jpeg\<close>.
\<close>

theorem C5_mime_precedence:
  "(startsWith fileType ''image/'' \<longrightarrow>
      getMimeType fileType base64
        = (if fileType = ''image/png'' then ''image/png'' else ''image/jpeg''))
   \<and> (fileType = ''application/pdf'' \<longrightarrow> getMimeType fileType base64 = ''application/pdf'')
   \<and> (startsWith fileType ''video/'' \<longrightarrow> getMimeType fileType base64 = fileType)
   \<and> (\<not> startsWith fileType ''image/'' \<and> fileType \<noteq> ''application/pdf''
        \<and> \<not> startsWith fileType ''video/'' \<longrightarrow>
        getMimeType fileType base64
          = (if includes_str base64 ''data:image/png'' then ''image/png''
             else if includes_str base64 ''data:image/jpeg'' \<or> includes_str base64 ''data:image/jpg''
               then ''image/jpeg''
             else if includes_str base64 ''data:application/pdf'' then ''application/pdf''
             else ''image/jpeg''))"
proof (intro conjI impI)
  show "getMimeType fileType base64 = ''application/pdf''" if "fileType = ''application/pdf''"
    using that by (simp add: getMimeType_def startsWith_def)
  show "getMimeType fileType base64 = fileType" if v: "startsWith fileType ''video/''"
  proof -
    have "\<not> startsWith fileType ''image/''" and "fileType \<noteq> ''application/pdf''"
      using v by (auto simp: startsWith_def)
    then show ?thesis
      using v by (simp add: getMimeType_def)
  qed
qed (simp_all add: getMimeType_def)

text \<open>A declared WebP image, and an undeclared PDF recognised by its data URL.\<close>

theorem C5_mime_precedence_witness:
  "startsWith ''image/webp'' ''image/''
   \<and> getMimeType ''image/webp'' ''data:image/webp;base64,UklGRg=='' = ''image/jpeg''
   \<and> getMimeType [] ''data:application/pdf;base64,JVBERi0='' = ''application/pdf''"
  using C5_mime_precedence [of "''image/webp''" "''data:image/webp;base64,UklGRg==''"]
    C5_mime_precedence [of "[]" "''data:application/pdf;base64,JVBERi0=''"]
  by (simp add: startsWith_def)

text \<open>
  Claim C5 as stated fails: a declared \<^verbatim>\<open>image/gif\<close> is replaced by \<^verbatim>\<open>image/jpeg\<close>,
  and a declared \<^verbatim>\<open>text/plain\<close> gives way to the type sniffed from the payload.
\<close>

theorem C5_counterexample:
  "getMimeType ''image/gif'' ''data:image/gif;base64,R0lGODlh'' = ''image/jpeg''
   \<and> getMimeType ''text/plain'' ''data:image/png;base64,iVBORw0K'' = ''image/png''"
  by (simp add: getMimeType_def startsWith_def)

section \<open>Attachments and the last user message\<close>

lemma findLastIndex_Some:
  "findLastIndex P xs = Some i \<Longrightarrow>
   i < length xs \<and> P (xs ! i) \<and> (\<forall>j. i < j \<and> j < length xs \<longrightarrow> \<not> P (xs ! j))"
proof (induction xs arbitrary: i)
  case Nil
  then show ?case by simp
next
  case (Cons x xs)
  show ?case
  proof (cases "findLastIndex P xs")
    case None
    then have none: "\<forall>j < length xs. \<not> P (xs ! j)"
      by (induction xs) (auto split: option.splits if_splits simp: less_Suc_eq_0_disj)
    from Cons.prems None have "i = 0" and "P x"
      by (auto split: if_splits)
    with none show ?thesis
      by (auto simp: nth_Cons split: nat.splits)
  next
    case (Some k)
    with Cons.prems have i: "i = Suc k" by simp
    from Cons.IH [OF Some] show ?thesis
      unfolding i by (auto simp: nth_Cons split: nat.splits)
  qed
qed

lemma validateFile_reads:
  "validateFile file = Inr (b, t) \<Longrightarrow>
   getProp file ''base64'' = Inr (Some (JStr b)) \<and> getProp file ''type'' = Inr (Some (JStr t))"
  by (auto simp: validateFile_def callCheckFileSize_def
           split: sum.splits option.splits json.splits if_splits)

lemma validateFiles_reads:
  "validateFiles visited = Inr files \<Longrightarrow>
   list_all2 (\<lambda>file (b, t). getProp file ''base64'' = Inr (Some (JStr b))
                          \<and> getProp file ''type'' = Inr (Some (JStr t))) visited files"
proof (induction visited arbitrary: files)
  case Nil
  then show ?case by simp
next
  case (Cons f rest)
  then obtain a as where a: "validateFile f = Inr a" and as: "validateFiles rest = Inr as"
    and files: "files = a # as"
    by (auto split: sum.splits)
  obtain b t where "a = (b, t)" by (cases a)
  with a validateFile_reads have "getProp f ''base64'' = Inr (Some (JStr b))
      \<and> getProp f ''type'' = Inr (Some (JStr t))" by blast
  with Cons.IH [OF as] files \<open>a = (b, t)\<close> show ?case by simp
qed

lemma attachFiles_length: "length (attachFiles msgs files) = length msgs"
  by (simp add: attachFiles_def Let_def split: option.splits)

lemma attachFiles_other:
  "findLastIndex (\<lambda>m. role m = ''user'') msgs \<noteq> Some j \<Longrightarrow> attachFiles msgs files ! j = msgs ! j"
  by (auto simp: attachFiles_def Let_def split: option.splits)

lemma attachFiles_last_user:
  assumes "findLastIndex (\<lambda>m. role m = ''user'') msgs = Some i" and "files \<noteq> []"
  shows "attachFiles msgs files ! i =
         (msgs ! i)\<lparr>content :=
            Parts ((if truthy (content (msgs ! i)) then [TextPart (content (msgs ! i))] else [])
                   @ map (\<lambda>(b, t). ImagePart b (Some t)) files)\<rparr>"
proof -
  have "i < length msgs"
    using findLastIndex_Some [OF assms(1)] by simp
  then show ?thesis
    using assms by (simp add: attachFiles_def Let_def)
qed

text \<open>
  Claim C6. When the attachments of a request pass validation, the enhanced history has
  the length of the original; every message other than the last one with role \<^verbatim>\<open>user\<close>
  is unchanged; and, when there is at least one attachment, that last user message gets as
  content its former content as a text part (if it was truthy) followed by one image part
  for each attachment, in the order of the list, with the payload and type read from it.
\<close>

theorem C6_attached_to_last_user_message:
  assumes "iterate parsedFiles = Inr visited" and "validateFiles visited = Inr files"
  shows "processFiles (Parsed parsedFiles) msgs = Inr (attachFiles msgs files)
    \<and> list_all2 (\<lambda>file (b, t). getProp file ''base64'' = Inr (Some (JStr b))
                              \<and> getProp file ''type'' = Inr (Some (JStr t))) visited files
    \<and> length (attachFiles msgs files) = length msgs
    \<and> (\<forall>j. findLastIndex (\<lambda>m. role m = ''user'') msgs \<noteq> Some j \<longrightarrow>
            attachFiles msgs files ! j = msgs ! j)
    \<and> (\<forall>i. findLastIndex (\<lambda>m. role m = ''user'') msgs = Some i \<longrightarrow>
            i < length msgs \<and> role (msgs ! i) = ''user''
            \<and> (\<forall>j. i < j \<and> j < length msgs \<longrightarrow> role (msgs ! j) \<noteq> ''user'')
            \<and> (files \<noteq> [] \<longrightarrow>
                 attachFiles msgs files ! i =
                 (msgs ! i)\<lparr>content :=
                    Parts ((if truthy (content (msgs ! i))
                            then [TextPart (content (msgs ! i))] else [])
                           @ map (\<lambda>(b, t). ImagePart b (Some t)) files)\<rparr>))"
proof (intro conjI allI impI)
  show "processFiles (Parsed parsedFiles) msgs = Inr (attachFiles msgs files)"
    using assms by (simp add: processFiles_def)
  show "list_all2 (\<lambda>file (b, t). getProp file ''base64'' = Inr (Some (JStr b))
                              \<and> getProp file ''type'' = Inr (Some (JStr t))) visited files"
    using assms(2) by (rule validateFiles_reads)
  show "length (attachFiles msgs files) = length msgs"
    by (rule attachFiles_length)
next
  fix j assume "findLastIndex (\<lambda>m. role m = ''user'') msgs \<noteq> Some j"
  then show "attachFiles msgs files ! j = msgs ! j"
    by (rule attachFiles_other)
next
  fix i assume i: "findLastIndex (\<lambda>m. role m = ''user'') msgs = Some i"
  from findLastIndex_Some [OF i]
  show "i < length msgs" and "role (msgs ! i) = ''user''"
    by simp_all
  {
    fix j assume "i < j \<and> j < length msgs"
    with findLastIndex_Some [OF i] show "role (msgs ! j) \<noteq> ''user''"
      by blast
  }
  {
    assume "files \<noteq> []"
    with i show "attachFiles msgs files ! i =
                 (msgs ! i)\<lparr>content :=
                    Parts ((if truthy (content (msgs ! i))
                            then [TextPart (content (msgs ! i))] else [])
                           @ map (\<lambda>(b, t). ImagePart b (Some t)) files)\<rparr>"
      by (rule attachFiles_last_user)
  }
qed

text \<open>Two attachments and a history with two user messages.\<close>

theorem C6_attached_to_last_user_message_witness:
  "iterate (JArr [JObj [(''type'', JStr ''image/png''), (''base64'', JStr ''iVBORw0K'')],
                  JObj [(''type'', JStr ''application/pdf''), (''base64'', JStr ''JVBERi0='')]])
     = Inr [JObj [(''type'', JStr ''image/png''), (''base64'', JStr ''iVBORw0K'')],
            JObj [(''type'', JStr ''application/pdf''), (''base64'', JStr ''JVBERi0='')]]
   \<and> validateFiles [JObj [(''type'', JStr ''image/png''), (''base64'', JStr ''iVBORw0K'')],
                     JObj [(''type'', JStr ''application/pdf''), (''base64'', JStr ''JVBERi0='')]]
     = Inr [(''iVBORw0K'', ''image/png''), (''JVBERi0='', ''application/pdf'')]
   \<and> processFiles
        (Parsed (JArr [JObj [(''type'', JStr ''image/png''), (''base64'', JStr ''iVBORw0K'')],
                       JObj [(''type'', JStr ''application/pdf''), (''base64'', JStr ''JVBERi0='')]]))
        [\<lparr>role = ''user'', content = Str ''First''\<rparr>,
         \<lparr>role = ''assistant'', content = Str ''Reply''\<rparr>,
         \<lparr>role = ''user'', content = Str ''Compare these''\<rparr>,
         \<lparr>role = ''assistant'', content = Str ''''\<rparr>]
     = Inr [\<lparr>role = ''user'', content = Str ''First''\<rparr>,
            \<lparr>role = ''assistant'', content = Str ''Reply''\<rparr>,
            \<lparr>role = ''user'',
             content = Parts [TextPart (Str ''Compare these''),
                              ImagePart ''iVBORw0K'' (Some ''image/png''),
                              ImagePart ''JVBERi0='' (Some ''application/pdf'')]\<rparr>,
            \<lparr>role = ''assistant'', content = Str ''''\<rparr>]"
proof -
  have v: "validateFiles [JObj [(''type'', JStr ''image/png''), (''base64'', JStr ''iVBORw0K'')],
                     JObj [(''type'', JStr ''application/pdf''), (''base64'', JStr ''JVBERi0='')]]
     = Inr [(''iVBORw0K'', ''image/png''), (''JVBERi0='', ''application/pdf'')]"
    by (simp add: validateFile_def callCheckFileSize_def checkFileSize_def startsWith_def
          originalSizeMB_def originalSizeBytes_def base64Length_def stripDataUrlHeader_def)
  have i: "iterate (JArr [JObj [(''type'', JStr ''image/png''), (''base64'', JStr ''iVBORw0K'')],
                  JObj [(''type'', JStr ''application/pdf''), (''base64'', JStr ''JVBERi0='')]])
     = Inr [JObj [(''type'', JStr ''image/png''), (''base64'', JStr ''iVBORw0K'')],
            JObj [(''type'', JStr ''application/pdf''), (''base64'', JStr ''JVBERi0='')]]"
    by simp
  show ?thesis
    using i v C6_attached_to_last_user_message [OF i v,
        of "[\<lparr>role = ''user'', content = Str ''First''\<rparr>,
             \<lparr>role = ''assistant'', content = Str ''Reply''\<rparr>,
             \<lparr>role = ''user'', content = Str ''Compare these''\<rparr>,
             \<lparr>role = ''assistant'', content = Str ''''\<rparr>]"]
    by (simp add: attachFiles_def)
qed

text \<open>
  Claim C3. When the last user message has non-empty text and the request carries one
  attachment declared \<^verbatim>\<open>image/png\<close> that passes the size check, the payload sent upstream
  has, at the place of that message, an entry with role \<^verbatim>\<open>user\<close> and exactly two parts:
  the text, unchanged, and then the inline data with MIME type \<^verbatim>\<open>image/png\<close>. The other
  entries are the translations of the other messages.
\<close>

theorem C3_text_then_inline_png:
  assumes "findLastIndex (\<lambda>m. role m = ''user'') msgs = Some i"
    and "content (msgs ! i) = Str text" and "text \<noteq> []"
    and "getProp file ''base64'' = Inr (Some (JStr b))"
    and "getProp file ''type'' = Inr (Some (JStr ''image/png''))"
    and "\<not> originalSizeMB b > 4.5"
    and "GEMINI_API_KEY e = Some k" and "k \<noteq> []"
  shows "snd (POST e msgs (Some (Parsed (JArr [file])))) =
         [buildGoogleGenAIPrompt (take i msgs)
          @ [\<lparr>g_role = ''user'',
               parts = [Text (Str text), InlineData ''image/png'' (base64Data b)]\<rparr>]
          @ buildGoogleGenAIPrompt (drop (Suc i) msgs)]"
proof -
  have i: "i < length msgs" and u: "role (msgs ! i) = ''user''"
    using findLastIndex_Some [OF assms(1)] by simp_all
  have "validateFile file = Inr (b, ''image/png'')"
    using assms(4-6)
    by (simp add: validateFile_def callCheckFileSize_def checkFileSize_def startsWith_def)
  then have p: "processFiles (Parsed (JArr [file])) msgs
      = Inr (msgs[i := (msgs ! i)\<lparr>content :=
               Parts [TextPart (Str text), ImagePart b (Some ''image/png'')]\<rparr>])"
    using assms(1-3) by (simp add: processFiles_def attachFiles_def)
  have "getMimeType ''image/png'' b = ''image/png''"
    by (simp add: getMimeType_def startsWith_def)
  then have "buildGoogleGenAIPrompt
        [(msgs ! i)\<lparr>content := Parts [TextPart (Str text), ImagePart b (Some ''image/png'')]\<rparr>]
      = [\<lparr>g_role = ''user'',
           parts = [Text (Str text), InlineData ''image/png'' (base64Data b)]\<rparr>]"
    using u by simp
  then have "buildGoogleGenAIPrompt
        (msgs[i := (msgs ! i)\<lparr>content :=
               Parts [TextPart (Str text), ImagePart b (Some ''image/png'')]\<rparr>])
      = buildGoogleGenAIPrompt (take i msgs)
          @ [\<lparr>g_role = ''user'',
               parts = [Text (Str text), InlineData ''image/png'' (base64Data b)]\<rparr>]
          @ buildGoogleGenAIPrompt (drop (Suc i) msgs)"
    using buildGoogleGenAIPrompt_update [OF i] by simp
  then show ?thesis
    using p assms(7,8) by (simp add: POST_def Let_def split: upstream_result.splits)
qed

lemma base64Data_png: "base64Data ''data:image/png;base64,iVBORw0K'' = ''iVBORw0K''"
  by (simp add: base64Data_def split_def startsWith_def)

text \<open>The text \<^verbatim>\<open>Summarize this\<close> with one PNG attachment.\<close>

theorem C3_text_then_inline_png_witness:
  "findLastIndex (\<lambda>m. role m = ''user'')
       [\<lparr>role = ''user'', content = Str ''Hi''\<rparr>,
        \<lparr>role = ''assistant'', content = Str ''Hello''\<rparr>,
        \<lparr>role = ''user'', content = Str ''Summarize this''\<rparr>] = Some 2
   \<and> \<not> originalSizeMB ''data:image/png;base64,iVBORw0K'' > 4.5
   \<and> snd (POST \<lparr>GEMINI_API_KEY = Some ''key'',
              generateContentStream = (\<lambda>contents. Resolved \<lparr>chunks = [utf16 ''ok''], ending = Completes\<rparr>)\<rparr>
        [\<lparr>role = ''user'', content = Str ''Hi''\<rparr>,
         \<lparr>role = ''assistant'', content = Str ''Hello''\<rparr>,
         \<lparr>role = ''user'', content = Str ''Summarize this''\<rparr>]
        (Some (Parsed (JArr [JObj [(''id'', JStr ''1''), (''name'', JStr ''scan.png''),
            (''type'', JStr ''image/png''),
            (''base64'', JStr ''data:image/png;base64,iVBORw0K'')]]))))
     = [[\<lparr>g_role = ''user'', parts = [Text (Str ''Hi'')]\<rparr>,
         \<lparr>g_role = ''model'', parts = [Text (Str ''Hello'')]\<rparr>,
         \<lparr>g_role = ''user'',
          parts = [Text (Str ''Summarize this''), InlineData ''image/png'' ''iVBORw0K'']\<rparr>]]"
proof -
  have f: "findLastIndex (\<lambda>m. role m = ''user'')
       [\<lparr>role = ''user'', content = Str ''Hi''\<rparr>,
        \<lparr>role = ''assistant'', content = Str ''Hello''\<rparr>,
        \<lparr>role = ''user'', content = Str ''Summarize this''\<rparr>] = Some 2"
    by simp
  have s: "\<not> originalSizeMB ''data:image/png;base64,iVBORw0K'' > 4.5"
    by (simp add: originalSizeMB_def originalSizeBytes_def base64Length_def
          stripDataUrlHeader_def startsWith_def)
  show ?thesis
    using f s C3_text_then_inline_png [OF f _ _ _ _ s,
        of "''Summarize this''"
           "JObj [(''id'', JStr ''1''), (''name'', JStr ''scan.png''),
                  (''type'', JStr ''image/png''),
                  (''base64'', JStr ''data:image/png;base64,iVBORw0K'')]"
           "\<lparr>GEMINI_API_KEY = Some ''key'',
              generateContentStream = (\<lambda>contents. Resolved \<lparr>chunks = [utf16 ''ok''], ending = Completes\<rparr>)\<rparr>"
           "''key''"]
      base64Data_png
    by simp
qed

section \<open>Relayed streams\<close>

lemma forAwait_readable:
  "state c = Readable \<Longrightarrow>
   forAwait cs e c =
     (c\<lparr>enqueued := enqueued c @ map encode (filter (\<lambda>t. t \<noteq> []) cs)\<rparr>, e = Throws)"
proof (induction cs arbitrary: c)
  case Nil
  then show ?case by (cases e) simp_all
next
  case (Cons t ts)
  show ?case
  proof (cases "t = []")
    case True
    then show ?thesis using Cons by simp
  next
    case False
    have "state (c\<lparr>enqueued := enqueued c @ [encode t]\<rparr>) = Readable"
      using Cons.prems by simp
    from Cons.IH [OF this] False Cons.prems show ?thesis
      by (simp add: controller_enqueue_def)
  qed
qed

lemma start_eq:
  "start \<lparr>chunks = cs, ending = e\<rparr> =
     \<lparr>enqueued = map encode (filter (\<lambda>t. t \<noteq> []) cs),
      state = (if e = Throws then Errored else Closed)\<rparr>"
  by (simp add: start_def forAwait_readable controller_close_def controller_error_def)

lemma encode_append:
  "\<not> (s \<noteq> [] \<and> t \<noteq> [] \<and> isLead (last s) \<and> isTrail (hd t)) \<Longrightarrow>
   encode (s @ t) = encode s @ encode t"
proof (induction s rule: encode.induct)
  case 1
  then show ?case by simp
next
  case (2 u)
  then show ?case by (cases t) auto
next
  case (3 u v rest)
  then show ?case by (cases "rest = []") auto
qed

lemma encode_concat_nonempty:
  "\<forall>c \<in> set xs. c \<noteq> [] \<Longrightarrow> pairsKept xs \<Longrightarrow> concat (map encode xs) = encode (concat xs)"
proof (induction xs rule: pairsKept.induct)
  case (1 a b cs)
  then have "hd (concat (b # cs)) = hd b" and "concat (b # cs) \<noteq> []"
    by auto
  with 1 show ?case
    using encode_append [of a "concat (b # cs)"] by auto
qed auto

lemma concat_filter_nonempty: "concat (filter (\<lambda>t. t \<noteq> []) cs) = concat cs"
  by (induction cs) auto

lemma encode_concat:
  "pairsKept (filter (\<lambda>t. t \<noteq> []) cs) \<Longrightarrow>
   concat (map encode (filter (\<lambda>t. t \<noteq> []) cs)) = encode (concat cs)"
  using encode_concat_nonempty [of "filter (\<lambda>t. t \<noteq> []) cs"] concat_filter_nonempty [of cs]
  by simp

text \<open>
  Claim C7, as amended. When the upstream stream completes, the relay has enqueued the
  encoding of each non-empty increment, in the order received, and closed the stream. When
  no surrogate pair is split between one non-empty increment and the next, the enqueued
  bytes concatenate to the encoding of the concatenated increments.
\<close>

theorem C7_relay_preserves_order:
  "start \<lparr>chunks = cs, ending = Completes\<rparr>
     = \<lparr>enqueued = map encode (filter (\<lambda>t. t \<noteq> []) cs), state = Closed\<rparr>
   \<and> (pairsKept (filter (\<lambda>t. t \<noteq> []) cs) \<longrightarrow>
        concat (enqueued (start \<lparr>chunks = cs, ending = Completes\<rparr>)) = encode (concat cs))
   \<and> (GEMINI_API_KEY e = Some k \<and> k \<noteq> []
        \<and> generateContentStream e (buildGoogleGenAIPrompt msgs)
            = Resolved \<lparr>chunks = cs, ending = Completes\<rparr> \<longrightarrow>
        POST e msgs None
          = (StreamResponse \<lparr>enqueued = map encode (filter (\<lambda>t. t \<noteq> []) cs), state = Closed\<rparr>,
             [buildGoogleGenAIPrompt msgs]))"
proof (intro conjI impI)
  show s: "start \<lparr>chunks = cs, ending = Completes\<rparr>
     = \<lparr>enqueued = map encode (filter (\<lambda>t. t \<noteq> []) cs), state = Closed\<rparr>"
    by (simp add: start_eq)
  {
    assume "pairsKept (filter (\<lambda>t. t \<noteq> []) cs)"
    then have "concat (map encode (filter (\<lambda>t. t \<noteq> []) cs)) = encode (concat cs)"
      by (rule encode_concat)
    with s show "concat (enqueued (start \<lparr>chunks = cs, ending = Completes\<rparr>)) = encode (concat cs)"
      by simp
  }
  assume "GEMINI_API_KEY e = Some k \<and> k \<noteq> []
        \<and> generateContentStream e (buildGoogleGenAIPrompt msgs)
            = Resolved \<lparr>chunks = cs, ending = Completes\<rparr>"
  then have "POST e msgs None
      = (StreamResponse (start \<lparr>chunks = cs, ending = Completes\<rparr>),
         [buildGoogleGenAIPrompt msgs])"
    by (simp add: POST_def)
  with s show "POST e msgs None
          = (StreamResponse \<lparr>enqueued = map encode (filter (\<lambda>t. t \<noteq> []) cs), state = Closed\<rparr>,
             [buildGoogleGenAIPrompt msgs])"
    by simp
qed

text \<open>The increments \<^verbatim>\<open>Hel\<close>, \<^verbatim>\<open>lo\<close>, \<^verbatim>\<open>!\<close>.\<close>

theorem C7_relay_preserves_order_witness:
  "pairsKept (filter (\<lambda>t. t \<noteq> []) [utf16 ''Hel'', utf16 ''lo'', utf16 ''!''])
   \<and> start \<lparr>chunks = [utf16 ''Hel'', utf16 ''lo'', utf16 ''!''], ending = Completes\<rparr>
       = \<lparr>enqueued = [[72, 101, 108], [108, 111], [33]], state = Closed\<rparr>
   \<and> encode (concat [utf16 ''Hel'', utf16 ''lo'', utf16 ''!'']) = [72, 101, 108, 108, 111, 33]
   \<and> encode (utf16 ''Hello!'') = [72, 101, 108, 108, 111, 33]
   \<and> POST \<lparr>GEMINI_API_KEY = Some ''key'',
            generateContentStream =
              (\<lambda>contents. Resolved \<lparr>chunks = [utf16 ''Hel'', utf16 ''lo'', utf16 ''!''],
                                     ending = Completes\<rparr>)\<rparr>
        [\<lparr>role = ''user'', content = Str ''Hi''\<rparr>] None
       = (StreamResponse \<lparr>enqueued = [[72, 101, 108], [108, 111], [33]], state = Closed\<rparr>,
          [[\<lparr>g_role = ''user'', parts = [Text (Str ''Hi'')]\<rparr>]])"
proof -
  have h: "pairsKept (filter (\<lambda>t. t \<noteq> []) [utf16 ''Hel'', utf16 ''lo'', utf16 ''!''])"
    by (simp add: utf16_def isLead_def isTrail_def)
  show ?thesis
    using h C7_relay_preserves_order [of "[utf16 ''Hel'', utf16 ''lo'', utf16 ''!'']"
      "\<lparr>GEMINI_API_KEY = Some ''key'',
        generateContentStream =
          (\<lambda>contents. Resolved \<lparr>chunks = [utf16 ''Hel'', utf16 ''lo'', utf16 ''!''],
                                 ending = Completes\<rparr>)\<rparr>"
      "''key''" "[\<lparr>role = ''user'', content = Str ''Hi''\<rparr>]"]
    by (simp add: utf16_def utf8_def scalarValue_def isLead_def isTrail_def)
qed

text \<open>
  Claim C7 as stated fails when an increment ends inside a surrogate pair: the two halves
  of U+1F600 are each encoded as U+FFFD, and the six bytes are not the four that encode the
  concatenated text.
\<close>

theorem C7_counterexample:
  "concat (enqueued (start \<lparr>chunks = [[0xD83D], [0xDE00]], ending = Completes\<rparr>))
     = [0xEF, 0xBF, 0xBD, 0xEF, 0xBF, 0xBD]
   \<and> encode (concat [[0xD83D], [0xDE00]]) = [0xF0, 0x9F, 0x98, 0x80]"
  by (simp add: start_def controller_enqueue_def controller_close_def controller_error_def
        utf8_def scalarValue_def pairValue_def isLead_def isTrail_def)

lemma POST_called:
  assumes "POST e msgs files = (r, [contents])"
  shows "r = (case generateContentStream e contents of
                Rejected \<Rightarrow> JsonResponse 500 (Fixed ''Failed to process chat request'')
                              (Message UpstreamErrorMessage)
              | Resolved geminiStream \<Rightarrow> StreamResponse (start geminiStream))"
  using assms
  by (auto simp: POST_def Let_def
           split: option.splits sum.splits if_splits upstream_result.splits)

text \<open>
  Claim C8. When the upstream stream throws after its increments, the relay has enqueued
  them and the stream is errored, not closed: \<^verbatim>\<open>close\<close> in \<^verbatim>\<open>finally\<close> cannot close an
  errored stream. The response of the request is that stream and no JSON body.
\<close>

theorem C8_failure_after_start:
  "start \<lparr>chunks = cs, ending = Throws\<rparr>
     = \<lparr>enqueued = map encode (filter (\<lambda>t. t \<noteq> []) cs), state = Errored\<rparr>
   \<and> (POST e msgs files = (r, [contents])
        \<and> generateContentStream e contents = Resolved \<lparr>chunks = cs, ending = Throws\<rparr> \<longrightarrow>
        r = StreamResponse \<lparr>enqueued = map encode (filter (\<lambda>t. t \<noteq> []) cs), state = Errored\<rparr>
        \<and> (\<forall>status err details. r \<noteq> JsonResponse status err details))"
proof (intro conjI impI)
  show s: "start \<lparr>chunks = cs, ending = Throws\<rparr>
     = \<lparr>enqueued = map encode (filter (\<lambda>t. t \<noteq> []) cs), state = Errored\<rparr>"
    by (simp add: start_eq)
  assume a: "POST e msgs files = (r, [contents])
        \<and> generateContentStream e contents = Resolved \<lparr>chunks = cs, ending = Throws\<rparr>"
  then show r: "r = StreamResponse \<lparr>enqueued = map encode (filter (\<lambda>t. t \<noteq> []) cs), state = Errored\<rparr>"
    using POST_called [of e msgs files r contents] s by simp
  then show "\<forall>status err details. r \<noteq> JsonResponse status err details"
    by simp
qed

text \<open>An upstream stream that throws after the increment \<^verbatim>\<open>Hel\<close>.\<close>

theorem C8_failure_after_start_witness:
  "POST \<lparr>GEMINI_API_KEY = Some ''key'',
         generateContentStream = (\<lambda>contents. Resolved \<lparr>chunks = [utf16 ''Hel''], ending = Throws\<rparr>)\<rparr>
      [\<lparr>role = ''user'', content = Str ''Hi''\<rparr>] None
     = (StreamResponse \<lparr>enqueued = [[72, 101, 108]], state = Errored\<rparr>,
        [[\<lparr>g_role = ''user'', parts = [Text (Str ''Hi'')]\<rparr>]])"
proof -
  have p: "POST \<lparr>GEMINI_API_KEY = Some ''key'',
         generateContentStream = (\<lambda>contents. Resolved \<lparr>chunks = [utf16 ''Hel''], ending = Throws\<rparr>)\<rparr>
      [\<lparr>role = ''user'', content = Str ''Hi''\<rparr>] None
     = (StreamResponse (start \<lparr>chunks = [utf16 ''Hel''], ending = Throws\<rparr>),
        [[\<lparr>g_role = ''user'', parts = [Text (Str ''Hi'')]\<rparr>]])"
    by (simp add: POST_def)
  show ?thesis
    using p C8_failure_after_start [of "[utf16 ''Hel'']"
      "\<lparr>GEMINI_API_KEY = Some ''key'',
         generateContentStream = (\<lambda>contents. Resolved \<lparr>chunks = [utf16 ''Hel''], ending = Throws\<rparr>)\<rparr>"
      "[\<lparr>role = ''user'', content = Str ''Hi''\<rparr>]" None
      "StreamResponse (start \<lparr>chunks = [utf16 ''Hel''], ending = Throws\<rparr>)"
      "[\<lparr>g_role = ''user'', parts = [Text (Str ''Hi'')]\<rparr>]"]
    by (simp add: utf16_def utf8_def scalarValue_def isLead_def isTrail_def)
qed


section \<open>Cleared history\<close>

text \<open>
  Claim C10. After a confirmed \<^verbatim>\<open>clearHistory\<close> neither the sessions nor the pointer to
  the current session are stored, and the component holds no message, session or current
  id; the auto-save effect that follows writes nothing; a component mounted on the
  cleared storage loads no session and no current id, and the sidebar lists none.
\<close>

theorem C10_clear_history:
  "fst (clearHistory True (ls, st)) STORAGE_KEY = None
   \<and> fst (clearHistory True (ls, st)) CURRENT_CHAT_KEY = None
   \<and> snd (clearHistory True (ls, st))
       = st\<lparr>messages := [], currentChatId := None, chatHistory := [], isMobileMenuOpen := False\<rparr>
   \<and> autoSave stringify nowId now (clearHistory True (ls, st)) = clearHistory True (ls, st)
   \<and> chatHistory (loadOnMount parse (fst (clearHistory True (ls, st))) initial) = []
   \<and> currentChatId (loadOnMount parse (fst (clearHistory True (ls, st))) initial) = None
   \<and> messages (loadOnMount parse (fst (clearHistory True (ls, st))) initial) = []
   \<and> loadHistory parse (fst (clearHistory True (ls, st))) history = []
   \<and> loadHistory_kept parse (fst (clearHistory True (ls, st))) [] = []"
  by (simp add: clearHistory_def autoSave_def loadOnMount_def loadHistory_def
        loadHistory_kept_def initial_def STORAGE_KEY_def CURRENT_CHAT_KEY_def)

text \<open>A storage holding one session, before and after the history is cleared.\<close>

theorem C10_clear_history_witness:
  "loadHistory (\<lambda>s. Some [\<lparr>chat_id = ''17'', title = ''Hi'', timestamp = 17, chat_messages = []\<rparr>])
     [STORAGE_KEY \<mapsto> ''saved'', CURRENT_CHAT_KEY \<mapsto> ''17''] []
     = [\<lparr>chat_id = ''17'', title = ''Hi'', timestamp = 17, chat_messages = []\<rparr>]
   \<and> loadHistory (\<lambda>s. Some [\<lparr>chat_id = ''17'', title = ''Hi'', timestamp = 17, chat_messages = []\<rparr>])
       (fst (clearHistory True
          ([STORAGE_KEY \<mapsto> ''saved'', CURRENT_CHAT_KEY \<mapsto> ''17''],
           \<lparr>messages = [], currentChatId = Some ''17'',
            chatHistory = [\<lparr>chat_id = ''17'', title = ''Hi'', timestamp = 17, chat_messages = []\<rparr>],
            isMobileMenuOpen = True\<rparr>)))
       [\<lparr>chat_id = ''17'', title = ''Hi'', timestamp = 17, chat_messages = []\<rparr>] = []
   \<and> fst (clearHistory True
          ([STORAGE_KEY \<mapsto> ''saved'', CURRENT_CHAT_KEY \<mapsto> ''17''],
           \<lparr>messages = [], currentChatId = Some ''17'',
            chatHistory = [\<lparr>chat_id = ''17'', title = ''Hi'', timestamp = 17, chat_messages = []\<rparr>],
            isMobileMenuOpen = True\<rparr>)) = Map.empty"
  using C10_clear_history [of "[STORAGE_KEY \<mapsto> ''saved'', CURRENT_CHAT_KEY \<mapsto> ''17'']"
      "\<lparr>messages = [], currentChatId = Some ''17'',
        chatHistory = [\<lparr>chat_id = ''17'', title = ''Hi'', timestamp = 17, chat_messages = []\<rparr>],
        isMobileMenuOpen = True\<rparr>" _ _ _
      "\<lambda>s. Some [\<lparr>chat_id = ''17'', title = ''Hi'', timestamp = 17, chat_messages = []\<rparr>]"
      "[\<lparr>chat_id = ''17'', title = ''Hi'', timestamp = 17, chat_messages = []\<rparr>]"]
  by (simp add: loadHistory_def sortByRecency_def clearHistory_def STORAGE_KEY_def CURRENT_CHAT_KEY_def)

end
